theory Spec2Isabelle
  imports Main
begin

section \<open>Data model\<close>

text \<open>
  The development embeds \<^verbatim>\<open>src/core/useSmartForm.ts\<close> (the first, current copy in the
  source: the one with \<^verbatim>\<open>defaultValues\<close>, \<^verbatim>\<open>tel\<close> and \<^verbatim>\<open>password\<close>).

  JavaScript values that can sit in the form-values object. Numbers are modelled on the
  integers plus \<^verbatim>\<open>NaN\<close>; a \<^verbatim>\<open>File\<close> object is an opaque value of type \<open>'f\<close>.
\<close>

datatype 'f jsval =
    JUndefined
  | JNull
  | JBool bool
  | JNum int
  | JNaN
  | JStr string
  | JFile 'f
  | JArray "'f jsval list"

text \<open>\<^verbatim>\<open>FormValues\<close>: the values object, a mapping from field name to current value.\<close>

type_synonym 'f FormValues = "string \<rightharpoonup> 'f jsval"

text \<open>An entry of \<^verbatim>\<open>formState.errors\<close>: an object with an optional message.\<close>

record FieldError =
  message :: "string option"

text \<open>
  A change event, as far as the code and the state engine read its target:
  \<^verbatim>\<open>e.target.files\<close> (a file list or \<^verbatim>\<open>null\<close>), the native input's string value and,
  for a checkbox, its checked state.
\<close>

record 'f ChangeEvent =
  target_files :: "'f list option"
  target_value :: string
  target_checked :: bool

text \<open>
  A property value of an element or of the passthrough bag \<^verbatim>\<open>rest\<close>. \<open>ACn args\<close> is
  the class string \<^verbatim>\<open>cn(...args)\<close>: \<^verbatim>\<open>cn\<close> lives in \<^verbatim>\<open>../utils/cn\<close>, which is not
  among the source files, so its result is kept as the uninterpreted application to
  its arguments (\<open>None\<close> for an argument that is \<^verbatim>\<open>false\<close> or \<^verbatim>\<open>undefined\<close>).
  A handler is the effect of the callback on the values object.
\<close>

datatype 'f attr =
    AUndefined
  | AStr string
  | ABool bool
  | ANum int
  | ACn "string option list"
  | AHandler "'f ChangeEvent \<Rightarrow> 'f FormValues \<Rightarrow> 'f FormValues"

text \<open>The options object passed to \<^verbatim>\<open>register\<close>; an absent flag is \<open>False\<close>.\<close>

record RegisterOptions =
  valueAsNumber :: bool

text \<open>
  Markup. \<open>Null\<close> is a child for which nothing is rendered (\<^verbatim>\<open>null\<close>, \<^verbatim>\<open>undefined\<close>,
  \<^verbatim>\<open>false\<close> or the empty string), \<open>Text\<close> a string child, \<open>Value\<close> a JavaScript value
  used as a child. An element has a tag, its properties after all spreads are merged
  (a later property replaces an earlier one of the same key, which is \<open>++\<close> on maps),
  the binding made by spreading \<^verbatim>\<open>register(name, options)\<close> into it, if any, and its
  children.
\<close>

datatype 'f node =
    Null
  | Text string
  | Value "'f jsval"
  | Element string "string \<rightharpoonup> 'f attr" "(string \<times> RegisterOptions) option" "'f node list"

text \<open>
  \<^verbatim>\<open>FieldProps\<close>. The optional properties are options; \<open>rest\<close> is the open bag of
  native attributes left after destructuring.
\<close>

record 'f FieldProps =
  name :: string
  label :: "string option"
  checkBoxLabel :: "string option"
  type :: "string option"
  options :: "string list option"
  showWhen :: "('f FormValues \<Rightarrow> bool) option"
  className :: "string option"
  displayValue :: "bool option"
  rest :: "string \<rightharpoonup> 'f attr"

text \<open>
  What \<^verbatim>\<open>Field\<close> reads from the bound state instance: the snapshot returned by
  \<^verbatim>\<open>useWatch({ control })\<close> and \<^verbatim>\<open>formState.errors\<close>. Everything else the state
  engine holds is the record's extension slot.
\<close>

record 'f FormContext =
  watched :: "'f FormValues"
  errors :: "string \<rightharpoonup> FieldError"

text \<open>
  The class names of \<^verbatim>\<open>./styles\<close>, a module that is not among the source files:
  taken as a parameter.
\<close>

record styles =
  styles_input :: string
  styles_checkbox :: string
  styles_checkboxLabel :: string
  styles_textarea :: string
  styles_select :: string
  styles_selectValue :: string
  styles_range :: string
  styles_radio :: string
  styles_label :: string
  styles_error :: string

section \<open>The state engine's interface\<close>

text \<open>
  Modelled from the spec: \<^verbatim>\<open>register\<close> of the form-state library (``register/bind-on-name'').
  Spreading its result into an element binds the element to the field name with the given
  options; the binding is kept on the element as a pair. What the handler it carries does,
  and when an attribute that follows replaces it, is \<open>native_change\<close> below.
\<close>

definition register :: "string \<Rightarrow> RegisterOptions \<Rightarrow> string \<times> RegisterOptions" where
  "register n opts = (n, opts)"

text \<open>
  Modelled from the spec: \<^verbatim>\<open>setValue\<close> of the form-state library (``an explicit value
  setter''): writes a value at a key of the values object.
\<close>

definition setValue :: "string \<Rightarrow> 'f jsval \<Rightarrow> 'f FormValues \<Rightarrow> 'f FormValues" where
  "setValue n v vs = vs(n \<mapsto> v)"

section \<open>Field\<close>

text \<open>
  \<^verbatim>\<open>const shouldRender = showWhen ? showWhen(values) : true\<close>. The predicate is typed to
  return a boolean, and \<^verbatim>\<open>if (!shouldRender)\<close> reads its result for truthiness: the
  \<open>bool\<close> of the model is that reading.
\<close>

definition shouldRender :: "'f FieldProps \<Rightarrow> 'f FormValues \<Rightarrow> bool" where
  "shouldRender p vs = (case showWhen p of Some f \<Rightarrow> f vs | None \<Rightarrow> True)"

text \<open>\<^verbatim>\<open>type = "text"\<close>: the default of the destructuring.\<close>

definition type_of :: "'f FieldProps \<Rightarrow> string" where
  "type_of p = (case type p of Some t \<Rightarrow> t | None \<Rightarrow> ''text'')"

text \<open>\<^verbatim>\<open>hasError && "border-red-500"\<close>, as an argument of \<^verbatim>\<open>cn\<close>.\<close>

definition errClass :: "bool \<Rightarrow> string option" where
  "errClass hasError = (if hasError then Some ''border-red-500'' else None)"

text \<open>
  Reading a property of \<^verbatim>\<open>rest\<close>, and JavaScript truthiness of the result. The bag
  never holds a class string built by \<^verbatim>\<open>cn\<close> (\<^verbatim>\<open>className\<close> is destructured out of
  it), so the equation for \<open>ACn\<close> is there for totality only.
\<close>

definition get_prop :: "(string \<rightharpoonup> 'f attr) \<Rightarrow> string \<Rightarrow> 'f attr" where
  "get_prop r k = (case r k of Some a \<Rightarrow> a | None \<Rightarrow> AUndefined)"

fun truthy :: "'f attr \<Rightarrow> bool" where
  "truthy AUndefined = False"
| "truthy (AStr s) = (s \<noteq> [])"
| "truthy (ABool b) = b"
| "truthy (ANum i) = (i \<noteq> 0)"
| "truthy (ACn args) = True"
| "truthy (AHandler h) = True"

text \<open>
  \<^verbatim>\<open>const baseProps = { id: name, ...rest, className: cn(styles.input, hasError && "border-red-500", className) }\<close>
\<close>

definition baseProps :: "styles \<Rightarrow> 'f FieldProps \<Rightarrow> bool \<Rightarrow> string \<rightharpoonup> 'f attr" where
  "baseProps st p hasError =
     [''id'' \<mapsto> AStr (name p)] ++ rest p
       ++ [''className'' \<mapsto> ACn [Some (styles_input st), errClass hasError, className p]]"

text \<open>
  The change handler of the file input (source lines 175 to 183):
  \<^verbatim>\<open>
  if (rest.multiple) {
    const files = e.target.files ? Array.from(e.target.files) : [];
    methods.setValue?.(name, files);
  } else {
    const file = e.target.files?.[0] || null;
    methods.setValue?.(name, file);
  }\<close>
\<close>

definition file_onChange ::
  "'f FieldProps \<Rightarrow> 'f ChangeEvent \<Rightarrow> 'f FormValues \<Rightarrow> 'f FormValues" where
  "file_onChange p e vs =
     (if truthy (get_prop (rest p) ''multiple'')
      then setValue (name p)
             (JArray (map JFile (case target_files e of Some fs \<Rightarrow> fs | None \<Rightarrow> []))) vs
      else setValue (name p)
             (case target_files e of Some (f # fs) \<Rightarrow> JFile f | _ \<Rightarrow> JNull) vs)"

text \<open>
  The arms of \<^verbatim>\<open>switch (type)\<close>, one definition for each, in the order of the source.
  Attributes are merged in the order the element lists them.

  \<^verbatim>\<open>case "email": case "text": case "date": case "tel": case "password":
    inputElement = <input type={type} {...register(name)} {...baseProps} />\<close>
\<close>

definition case_text :: "styles \<Rightarrow> 'f FieldProps \<Rightarrow> bool \<Rightarrow> 'f node" where
  "case_text st p hasError =
     Element ''input''
       ([''type'' \<mapsto> AStr (type_of p)] ++ baseProps st p hasError)
       (Some (register (name p) \<lparr>valueAsNumber = False\<rparr>)) []"

text \<open>
  \<^verbatim>\<open>case "number":
    inputElement = <input type={type} {...register(name, { valueAsNumber: true })} {...baseProps} />\<close>
\<close>

definition case_number :: "styles \<Rightarrow> 'f FieldProps \<Rightarrow> bool \<Rightarrow> 'f node" where
  "case_number st p hasError =
     Element ''input''
       ([''type'' \<mapsto> AStr (type_of p)] ++ baseProps st p hasError)
       (Some (register (name p) \<lparr>valueAsNumber = True\<rparr>)) []"

text \<open>
  \<^verbatim>\<open>case "checkbox"\<close>: a \<^verbatim>\<open>div\<close> holding the input and, when \<^verbatim>\<open>checkBoxLabel\<close> is
  truthy, a label beside it.
\<close>

definition case_checkbox :: "styles \<Rightarrow> 'f FieldProps \<Rightarrow> bool \<Rightarrow> 'f node" where
  "case_checkbox st p hasError =
     Element ''div'' [''className'' \<mapsto> AStr ''flex items-center gap-2''] None
       [Element ''input''
          ([''id'' \<mapsto> AStr (name p), ''type'' \<mapsto> AStr (type_of p)] ++ rest p
             ++ [''className'' \<mapsto> ACn [Some (styles_checkbox st), errClass hasError, className p]])
          (Some (register (name p) \<lparr>valueAsNumber = False\<rparr>)) [],
        (case checkBoxLabel p of
           Some l \<Rightarrow>
             if l \<noteq> []
             then Element ''label''
                    [''htmlFor'' \<mapsto> AStr (name p), ''className'' \<mapsto> AStr (styles_checkboxLabel st)]
                    None [Text l]
             else Null
         | None \<Rightarrow> Null)]"

text \<open>\<^verbatim>\<open>case "textarea": <textarea id={name} {...register(name)} {...rest} className={cn(...)} />\<close>\<close>

definition case_textarea :: "styles \<Rightarrow> 'f FieldProps \<Rightarrow> bool \<Rightarrow> 'f node" where
  "case_textarea st p hasError =
     Element ''textarea''
       ([''id'' \<mapsto> AStr (name p)] ++ rest p
          ++ [''className'' \<mapsto> ACn [Some (styles_textarea st), errClass hasError, className p]])
       (Some (register (name p) \<lparr>valueAsNumber = False\<rparr>)) []"

text \<open>
  \<^verbatim>\<open>case "file":
    <input id={name} type={type} accept={rest.accept} multiple={rest.multiple}
           onChange={...} {...rest} className={cn(...)} />\<close>
  There is no \<^verbatim>\<open>register\<close> call in this arm, and \<^verbatim>\<open>{...rest}\<close> stands after
  \<^verbatim>\<open>onChange\<close>.
\<close>

definition case_file :: "styles \<Rightarrow> 'f FieldProps \<Rightarrow> bool \<Rightarrow> 'f node" where
  "case_file st p hasError =
     Element ''input''
       ([''id'' \<mapsto> AStr (name p), ''type'' \<mapsto> AStr (type_of p),
         ''accept'' \<mapsto> get_prop (rest p) ''accept'',
         ''multiple'' \<mapsto> get_prop (rest p) ''multiple'',
         ''onChange'' \<mapsto> AHandler (file_onChange p)] ++ rest p
          ++ [''className'' \<mapsto> ACn [Some (styles_input st), errClass hasError, className p]])
       None []"

text \<open>
  \<^verbatim>\<open>case "select": inputElement = options ? (<select ...> placeholder option, one
  option for each entry </select>) : null\<close>. An array is truthy also when it is empty, so
  the test is on the presence of \<^verbatim>\<open>options\<close>. The placeholder is
  \<^verbatim>\<open>rest.placeholder ?? "Select an option"\<close>; \<^verbatim>\<open>placeholder\<close> is typed as a string
  or \<^verbatim>\<open>undefined\<close>, and any other value is read as \<^verbatim>\<open>undefined\<close>.
\<close>

definition case_select :: "styles \<Rightarrow> 'f FieldProps \<Rightarrow> bool \<Rightarrow> 'f node" where
  "case_select st p hasError =
     (case options p of
        Some opts \<Rightarrow>
          Element ''select''
            ([''id'' \<mapsto> AStr (name p)] ++ rest p
               ++ [''className'' \<mapsto> ACn [Some (styles_select st), errClass hasError, className p]])
            (Some (register (name p) \<lparr>valueAsNumber = False\<rparr>))
            (Element ''option''
               [''value'' \<mapsto> AStr [], ''disabled'' \<mapsto> ABool True, ''hidden'' \<mapsto> ABool True] None
               [Text (case get_prop (rest p) ''placeholder'' of
                        AStr s \<Rightarrow> s | _ \<Rightarrow> ''Select an option'')]
             # map (\<lambda>opt. Element ''option''
                      [''key'' \<mapsto> AStr opt, ''value'' \<mapsto> AStr opt,
                       ''className'' \<mapsto> AStr (styles_selectValue st)] None [Text opt]) opts)
      | None \<Rightarrow> Null)"

text \<open>
  \<^verbatim>\<open>case "range"\<close>: a \<^verbatim>\<open>div\<close> holding the input, registered with
  \<^verbatim>\<open>{ valueAsNumber: true }\<close>, and, when \<^verbatim>\<open>displayValue\<close> is set, a \<^verbatim>\<open>div\<close> showing
  \<^verbatim>\<open>values[name]\<close>.
\<close>

definition case_range :: "styles \<Rightarrow> 'f FieldProps \<Rightarrow> 'f FormValues \<Rightarrow> bool \<Rightarrow> 'f node" where
  "case_range st p vs hasError =
     Element ''div'' Map.empty None
       [Element ''input''
          ([''id'' \<mapsto> AStr (name p), ''type'' \<mapsto> AStr (type_of p)] ++ rest p
             ++ [''className'' \<mapsto> ACn [Some (styles_range st), errClass hasError, className p]])
          (Some (register (name p) \<lparr>valueAsNumber = True\<rparr>)) [],
        (if displayValue p = Some True
         then Element ''div'' [''className'' \<mapsto> AStr ''text-sm text-muted-foreground mt-1''] None
                [Value (case vs (name p) of Some v \<Rightarrow> v | None \<Rightarrow> JUndefined)]
         else Null)]"

text \<open>
  \<^verbatim>\<open>case "radio": inputElement = options ? (<div> one label with a radio input and a
  span for each entry </div>) : null\<close>. The radio inputs take neither \<^verbatim>\<open>id\<close> nor
  \<^verbatim>\<open>rest\<close>.
\<close>

definition case_radio :: "styles \<Rightarrow> 'f FieldProps \<Rightarrow> bool \<Rightarrow> 'f node" where
  "case_radio st p hasError =
     (case options p of
        Some opts \<Rightarrow>
          Element ''div'' [''className'' \<mapsto> AStr ''flex flex-col gap-2''] None
            (map (\<lambda>opt. Element ''label''
                     [''key'' \<mapsto> AStr opt,
                      ''className'' \<mapsto> AStr ''inline-flex items-center gap-2 text-sm''] None
                     [Element ''input''
                        [''type'' \<mapsto> AStr ''radio'', ''value'' \<mapsto> AStr opt,
                         ''className'' \<mapsto> ACn [Some (styles_radio st), errClass hasError, className p]]
                        (Some (register (name p) \<lparr>valueAsNumber = False\<rparr>)) [],
                      Element ''span'' Map.empty None [Text opt]]) opts)
      | None \<Rightarrow> Null)"

text \<open>The \<^verbatim>\<open>switch\<close> itself; \<^verbatim>\<open>default: inputElement = null\<close>.\<close>

definition inputElement :: "styles \<Rightarrow> 'f FieldProps \<Rightarrow> 'f FormValues \<Rightarrow> bool \<Rightarrow> 'f node" where
  "inputElement st p vs hasError =
     (let t = type_of p in
      if t = ''email'' \<or> t = ''text'' \<or> t = ''date'' \<or> t = ''tel'' \<or> t = ''password''
        then case_text st p hasError
      else if t = ''number'' then case_number st p hasError
      else if t = ''checkbox'' then case_checkbox st p hasError
      else if t = ''textarea'' then case_textarea st p hasError
      else if t = ''file'' then case_file st p hasError
      else if t = ''select'' then case_select st p hasError
      else if t = ''range'' then case_range st p vs hasError
      else if t = ''radio'' then case_radio st p hasError
      else Null)"

text \<open>
  \<^verbatim>\<open>{label && type !== "checkbox" && (<label className={styles.label} htmlFor={name}>{label}</label>)}\<close>
\<close>

definition labelElement :: "styles \<Rightarrow> 'f FieldProps \<Rightarrow> 'f node" where
  "labelElement st p =
     (case label p of
        Some l \<Rightarrow>
          if l \<noteq> [] \<and> type_of p \<noteq> ''checkbox''
          then Element ''label''
                 [''className'' \<mapsto> AStr (styles_label st), ''htmlFor'' \<mapsto> AStr (name p)] None [Text l]
          else Null
      | None \<Rightarrow> Null)"

text \<open>
  \<^verbatim>\<open>{hasError && (<p className={styles.error}>{error?.message ?? "This field is required"}</p>)}\<close>,
  where \<^verbatim>\<open>error = errors[name]\<close> and \<^verbatim>\<open>hasError = Boolean(error)\<close>: an entry of the
  error map is an object, hence truthy.
\<close>

definition errorElement :: "styles \<Rightarrow> FieldError option \<Rightarrow> 'f node" where
  "errorElement st error =
     (case error of
        Some e \<Rightarrow>
          Element ''p'' [''className'' \<mapsto> AStr (styles_error st)] None
            [Text (case message e of Some m \<Rightarrow> m | None \<Rightarrow> ''This field is required'')]
      | None \<Rightarrow> Null)"

text \<open>
  \<^verbatim>\<open>Field\<close> (source lines 79 to 286): the visibility test, the error lookup, the type
  dispatch and the wrapper. The constant is named \<open>Field'\<close> because the library has a
  constant \<open>Field\<close> of its own.
\<close>

definition Field' :: "styles \<Rightarrow> 'f FieldProps \<Rightarrow> ('f, 'z) FormContext_scheme \<Rightarrow> 'f node" where
  "Field' st p c =
     (let vs = watched c in
      if \<not> shouldRender p vs then Null
      else
        let error = errors c (name p);
            hasError = (error \<noteq> None)
        in Element ''div'' [''className'' \<mapsto> AStr ''mb-4''] None
             [labelElement st p, inputElement st p vs hasError, errorElement st error])"

section \<open>Events\<close>

text \<open>
  The input slot of a rendered field: the second child of the wrapper \<^verbatim>\<open>div\<close>
  (\<^verbatim>\<open>{inputElement}\<close>, between the label and the error text).
\<close>

fun field_input :: "'f node \<Rightarrow> 'f node" where
  "field_input (Element tag ps b [l, i, e]) = i"
| "field_input nd = Null"

text \<open>
  Modelled from the spec: the host's delivery of a user input event (``all work runs on the
  host UI thread in response to user input events''). A change event on an element runs
  the handler that the element's merged properties hold under \<^verbatim>\<open>onChange\<close>; with no
  handler there, nothing is written.
\<close>

fun change_event :: "'f node \<Rightarrow> 'f ChangeEvent \<Rightarrow> 'f FormValues \<Rightarrow> 'f FormValues" where
  "change_event (Element tag ps b cs) e vs =
     (case ps ''onChange'' of Some (AHandler h) \<Rightarrow> h e vs | _ \<Rightarrow> vs)"
| "change_event nd e vs = vs"

text \<open>The bindings to the state engine that a piece of markup holds, in document order.\<close>

fun bindings :: "'f node \<Rightarrow> (string \<times> RegisterOptions) list" where
  "bindings (Element tag ps b cs) =
     (case b of Some x \<Rightarrow> [x] | None \<Rightarrow> []) @ concat (map bindings cs)"
| "bindings nd = []"




text \<open>
  An instance of \<open>toNumber\<close> for concrete evaluation: the conversion on unsigned
  decimal numerals, where it yields the integer the digits denote. Every other string is
  sent to \<^verbatim>\<open>NaN\<close>, which JavaScript does for a string that is not numeric; signed,
  fractional and exponent forms are outside this instance.
\<close>

definition decimal :: "string \<Rightarrow> 'f jsval" where
  "decimal s =
     (if s \<noteq> [] \<and> list_all (\<lambda>c. 48 \<le> (of_char c :: nat) \<and> (of_char c :: nat) \<le> 57) s
      then JNum (foldl (\<lambda>a c. 10 * a + (of_char c - 48)) 0 s)
      else JNaN)"

text \<open>
  The native controls of a piece of markup, and whether a control's class is built by
  \<^verbatim>\<open>cn\<close> with the error class among the arguments.
\<close>

fun controls :: "'f node \<Rightarrow> 'f node list" where
  "controls (Element tag ps b cs) =
     (if tag = ''input'' \<or> tag = ''select'' \<or> tag = ''textarea''
      then [Element tag ps b cs] else []) @ concat (map controls cs)"
| "controls nd = []"

fun has_error_class :: "'f node \<Rightarrow> bool" where
  "has_error_class (Element tag ps b cs) =
     (case ps ''className'' of
        Some (ACn args) \<Rightarrow> Some ''border-red-500'' \<in> set args
      | _ \<Rightarrow> False)"
| "has_error_class nd = False"

section \<open>Form\<close>

text \<open>
  The argument of \<^verbatim>\<open>useSmartForm\<close>. The schema stands with its resolver
  (\<^verbatim>\<open>zodResolver(props.schema)\<close>): it takes the attempted values and returns the
  per-field errors or the parsed values. \<^verbatim>\<open>onSubmit\<close> is a callback; its effect is a
  change of the caller's state \<open>'w\<close>.
\<close>

record ('f, 'w) SmartFormProps =
  schema :: "'f FormValues \<Rightarrow> (string \<rightharpoonup> FieldError) + 'f FormValues"
  onSubmit :: "('f FormValues \<Rightarrow> 'w \<Rightarrow> 'w) option"
  defaultValues :: "'f FormValues option"

text \<open>
  Modelled from the spec: \<^verbatim>\<open>handleSubmit\<close> of the form-state library (``the state engine's
  submit-handler, which performs full validation and invokes \<^verbatim>\<open>onSubmit\<close> only if the
  schema accepts; invalid submissions are swallowed (no-op) rather than propagated'').
\<close>

definition handleSubmit ::
  "('f FormValues \<Rightarrow> (string \<rightharpoonup> FieldError) + 'f FormValues) \<Rightarrow>
   ('f FormValues \<Rightarrow> 'w \<Rightarrow> 'w) \<Rightarrow> 'f FormValues \<Rightarrow> 'w \<Rightarrow> 'w" where
  "handleSubmit resolver onValid vs w =
     (case resolver vs of Inl errs \<Rightarrow> w | Inr parsed \<Rightarrow> onValid parsed w)"

text \<open>The \<^verbatim>\<open>form\<close> element that \<^verbatim>\<open>Form\<close> renders inside the provider.\<close>

record ('f, 'w) FormElement =
  form_onSubmit :: "'f FormValues \<Rightarrow> 'w \<Rightarrow> 'w"
  form_className :: "'f attr"
  form_children :: "'f node list"

text \<open>
  \<^verbatim>\<open>Form\<close> (source lines 62 to 77):
  \<^verbatim>\<open><form onSubmit={methods.handleSubmit(props.onSubmit || (() => {}))}
        className={cn("", className)}>{children}</form>\<close>
\<close>

definition Form ::
  "('f, 'w) SmartFormProps \<Rightarrow> 'f node list \<Rightarrow> string option \<Rightarrow> ('f, 'w) FormElement" where
  "Form props children cls =
     \<lparr>form_onSubmit =
        handleSubmit (schema props)
          (case onSubmit props of Some f \<Rightarrow> f | None \<Rightarrow> (\<lambda>parsed w. w)),
      form_className = ACn [Some [], cls],
      form_children = children\<rparr>"

text \<open>A native submit event on the form, with the values the engine holds at that time.\<close>

definition submit_event :: "('f, 'w) FormElement \<Rightarrow> 'f FormValues \<Rightarrow> 'w \<Rightarrow> 'w" where
  "submit_event form vs w = form_onSubmit form vs w"

section \<open>Concrete inputs\<close>

text \<open>
  Fields, contexts and events for evaluating the definitions. Files are named by
  strings. The fields follow the example form of the documentation.
\<close>

definition demo_styles :: styles where
  "demo_styles =
     \<lparr>styles_input = ''input'', styles_checkbox = ''checkbox'',
      styles_checkboxLabel = ''checkbox-label'', styles_textarea = ''textarea'',
      styles_select = ''select'', styles_selectValue = ''select-value'',
      styles_range = ''range'', styles_radio = ''radio'', styles_label = ''label'',
      styles_error = ''error''\<rparr>"

text \<open>\<^verbatim>\<open><Field name={n} />\<close>: every optional property absent.\<close>

definition text_field :: "string \<Rightarrow> string FieldProps" where
  "text_field n =
     \<lparr>name = n, label = None, checkBoxLabel = None, type = None, options = None,
      showWhen = None, className = None, displayValue = None, rest = Map.empty\<rparr>"

text \<open>\<^verbatim>\<open>showWhen={(values) => values.isStudent}\<close>, on a boolean field.\<close>

definition isStudent :: "string FormValues \<Rightarrow> bool" where
  "isStudent vs = (vs ''isStudent'' = Some (JBool True))"

definition school_field :: "string FieldProps" where
  "school_field = (text_field ''school'')\<lparr>label := Some ''School'', showWhen := Some isStudent\<rparr>"

definition wantsNewsletter :: "string FormValues \<Rightarrow> bool" where
  "wantsNewsletter vs = (vs ''wantsNewsletter'' = Some (JBool True))"

definition frequency_field :: "string FieldProps" where
  "frequency_field =
     (text_field ''newsletterFrequency'')
       \<lparr>label := Some ''Frequency'', type := Some ''select'',
        options := Some [''daily'', ''weekly''], showWhen := Some wantsNewsletter\<rparr>"

definition mood_field :: "string FieldProps" where
  "mood_field = (text_field ''mood'')\<lparr>type := Some ''select'', options := Some []\<rparr>"

definition plan_field :: "string FieldProps" where
  "plan_field = (text_field ''plan'')\<lparr>type := Some ''radio''\<rparr>"

definition colour_field :: "string FieldProps" where
  "colour_field = (text_field ''colour'')\<lparr>label := Some ''Colour'', type := Some ''color''\<rparr>"

definition age_field :: "string FieldProps" where
  "age_field = (text_field ''age'')\<lparr>type := Some ''number''\<rparr>"


definition avatar_field :: "string FieldProps" where
  "avatar_field = (text_field ''avatar'')\<lparr>type := Some ''file''\<rparr>"

definition photos_field :: "string FieldProps" where
  "photos_field =
     (text_field ''photos'')\<lparr>type := Some ''file'', rest := [''multiple'' \<mapsto> ABool True]\<rparr>"

text \<open>
  A file field whose caller passes a change handler of its own, one that does not touch
  the form values: \<^verbatim>\<open><Field name="avatar" type="file" onChange={showPreview} />\<close>.
\<close>

definition showPreview :: "string ChangeEvent \<Rightarrow> string FormValues \<Rightarrow> string FormValues" where
  "showPreview e vs = vs"

definition preview_field :: "string FieldProps" where
  "preview_field =
     (text_field ''avatar'')\<lparr>type := Some ''file'', rest := [''onChange'' \<mapsto> AHandler showPreview]\<rparr>"




definition files_event :: "string list \<Rightarrow> string ChangeEvent" where
  "files_event fs = \<lparr>target_files = Some fs, target_value = [], target_checked = False\<rparr>"

definition empty_ctx :: "string FormContext" where
  "empty_ctx = \<lparr>watched = Map.empty, errors = Map.empty\<rparr>"

definition student_ctx :: "string FormContext" where
  "student_ctx =
     \<lparr>watched = [''isStudent'' \<mapsto> JBool True],
      errors = [''school'' \<mapsto> \<lparr>message = None\<rparr>]\<rparr>"

definition guest_ctx :: "string FormContext" where
  "guest_ctx =
     \<lparr>watched = [''isStudent'' \<mapsto> JBool False],
      errors = [''school'' \<mapsto> \<lparr>message = Some ''School is required''\<rparr>]\<rparr>"

definition unsubscribed_ctx :: "string FormContext" where
  "unsubscribed_ctx =
     \<lparr>watched = [''wantsNewsletter'' \<mapsto> JBool False],
      errors = [''newsletterFrequency'' \<mapsto> \<lparr>message = Some ''Pick a frequency''\<rparr>]\<rparr>"

text \<open>
  A schema over one field: a number is accepted as it is, a string is coerced to a
  number, anything else is an error. The submit callback appends the parsed \<^verbatim>\<open>age\<close>
  to a log of its calls.
\<close>

definition age_schema ::
  "string FormValues \<Rightarrow> (string \<rightharpoonup> FieldError) + string FormValues" where
  "age_schema vs =
     (case vs ''age'' of
        Some (JNum n) \<Rightarrow> Inr vs
      | Some (JStr s) \<Rightarrow> Inr (vs(''age'' \<mapsto> decimal s))
      | _ \<Rightarrow> Inl [''age'' \<mapsto> \<lparr>message = Some ''Expected number''\<rparr>])"

definition log_age ::
  "string FormValues \<Rightarrow> string jsval option list \<Rightarrow> string jsval option list" where
  "log_age parsed calls = calls @ [parsed ''age'']"

definition age_form :: "(string, string jsval option list) SmartFormProps" where
  "age_form = \<lparr>schema = age_schema, onSubmit = Some log_age, defaultValues = None\<rparr>"

section \<open>Auxiliary facts\<close>

text \<open>The two outcomes of the visibility test.\<close>

lemma Field_visible:
  "shouldRender p (watched c) \<Longrightarrow>
   Field' st p c =
     Element ''div'' [''className'' \<mapsto> AStr ''mb-4''] None
       [labelElement st p, inputElement st p (watched c) (errors c (name p) \<noteq> None),
        errorElement st (errors c (name p))]"
  by (simp add: Field'_def Let_def)

lemma Field_hidden: "\<not> shouldRender p (watched c) \<Longrightarrow> Field' st p c = Null"
  by (simp add: Field'_def Let_def)

lemma field_input_Field:
  "shouldRender p (watched c) \<Longrightarrow>
   field_input (Field' st p c) = inputElement st p (watched c) (errors c (name p) \<noteq> None)"
  by (simp add: Field_visible)

text \<open>The arm that the dispatch takes, for the types the claims single out.\<close>

lemma inputElement_unmatched:
  "type_of p \<notin> {''text'', ''number'', ''checkbox'', ''select'', ''textarea'', ''email'',
                 ''file'', ''date'', ''range'', ''radio'', ''password'', ''tel''} \<Longrightarrow>
   inputElement st p vs h = Null"
  by (simp add: inputElement_def)


lemma inputElement_file:
  "type_of p = ''file'' \<Longrightarrow> inputElement st p vs h = case_file st p h"
  by (simp add: inputElement_def)

lemma inputElement_select:
  "type_of p = ''select'' \<Longrightarrow> inputElement st p vs h = case_select st p h"
  by (simp add: inputElement_def)


lemma inputElement_radio:
  "type_of p = ''radio'' \<Longrightarrow> inputElement st p vs h = case_radio st p h"
  by (simp add: inputElement_def)

text \<open>Bindings and controls of the parts of the wrapper.\<close>

lemma bindings_labelElement: "bindings (labelElement st p) = []"
  by (simp add: labelElement_def split: option.splits)

lemma bindings_errorElement: "bindings (errorElement st err) = []"
  by (simp add: errorElement_def split: option.splits)

lemma bindings_case_number:
  "bindings (case_number st p h) = [(name p, \<lparr>valueAsNumber = True\<rparr>)]"
  by (simp add: case_number_def register_def)

lemma bindings_case_range:
  "bindings (case_range st p vs h) = [(name p, \<lparr>valueAsNumber = True\<rparr>)]"
  by (simp add: case_range_def register_def)

lemma bindings_case_file: "bindings (case_file st p h) = []"
  by (simp add: case_file_def)

lemma controls_labelElement: "controls (labelElement st p) = []"
  by (simp add: labelElement_def split: option.splits)

lemma controls_errorElement: "controls (errorElement st err) = []"
  by (simp add: errorElement_def split: option.splits)

lemma controls_options:
  "concat (map controls (map (\<lambda>opt. Element ''option'' (f opt) None [Text opt]) opts)) = []"
  by (induction opts) simp_all

text \<open>
  With \<^verbatim>\<open>hasError\<close> set, every control of every arm has the error class among the
  arguments of \<^verbatim>\<open>cn\<close>: \<^verbatim>\<open>className\<close> is the last attribute of each control, so
  \<^verbatim>\<open>rest\<close> cannot replace it.
\<close>

lemma controls_inputElement_error:
  "\<forall>x \<in> set (controls (inputElement st p vs True)). has_error_class x"
  by (auto simp: inputElement_def Let_def case_text_def case_number_def case_checkbox_def
      case_textarea_def case_file_def case_select_def case_range_def case_radio_def
      baseProps_def errClass_def controls_options
      split: option.splits)

text \<open>
  The file input runs the built-in handler exactly when \<^verbatim>\<open>rest\<close> brings no
  \<^verbatim>\<open>onChange\<close> of its own.
\<close>

lemma change_case_file:
  "rest p ''onChange'' = None \<Longrightarrow> change_event (case_file st p h) e vs = file_onChange p e vs"
  by (simp add: case_file_def map_add_def)

section \<open>Visibility\<close>



text \<open>
  Claim C9. When \<^verbatim>\<open>showWhen\<close> is false of the current values, \<^verbatim>\<open>Field\<close> returns
  \<^verbatim>\<open>null\<close>: no wrapper, no label and no error text, whatever the error map holds. The
  context \<open>c\<close> is arbitrary, so its error map is.
\<close>

theorem hidden_field_renders_nothing:
  "showWhen p = Some f \<Longrightarrow> \<not> f (watched c) \<Longrightarrow> Field' st p c = Null"
  by (simp add: Field'_def Let_def shouldRender_def)

text \<open>The guest's context has an error for the hidden field, and nothing is rendered.\<close>

theorem hidden_field_renders_nothing_witness:
  "errors guest_ctx (name school_field) = Some \<lparr>message = Some ''School is required''\<rparr> \<and>
   Field' demo_styles school_field guest_ctx = Null"
proof -
  have "showWhen school_field = Some isStudent"
    by (simp add: school_field_def text_field_def)
  moreover have "\<not> isStudent (watched guest_ctx)"
    by (simp add: isStudent_def guest_ctx_def)
  ultimately have "Field' demo_styles school_field guest_ctx = Null"
    by (rule hidden_field_renders_nothing)
  then show ?thesis
    by (simp add: guest_ctx_def school_field_def text_field_def)
qed

section \<open>Type dispatch\<close>

text \<open>
  Claim C3 as stated (a select or radio field with an empty options sequence renders
  nothing) does not hold. The test of the source is \<^verbatim>\<open>options ? ... : null\<close>, and an
  empty array is truthy: the select field with \<^verbatim>\<open>options={[]}\<close> renders its wrapper, and
  inside it a \<^verbatim>\<open>select\<close> holding the placeholder option.
\<close>

theorem select_empty_options_renders:
  "type_of mood_field = ''select'' \<and> options mood_field = Some [] \<and>
   Field' demo_styles mood_field empty_ctx \<noteq> Null \<and>
   field_input (Field' demo_styles mood_field empty_ctx) =
     Element ''select''
       [''id'' \<mapsto> AStr ''mood'', ''className'' \<mapsto> ACn [Some ''select'', None, None]]
       (Some (''mood'', \<lparr>valueAsNumber = False\<rparr>))
       [Element ''option''
          [''value'' \<mapsto> AStr [], ''disabled'' \<mapsto> ABool True, ''hidden'' \<mapsto> ABool True] None
          [Text ''Select an option'']]"
  by (simp add: Field'_def Let_def shouldRender_def type_of_def inputElement_def
      case_select_def errClass_def register_def get_prop_def
      mood_field_def text_field_def demo_styles_def empty_ctx_def)

text \<open>
  Claim C3, amended. For a visible field of type select or radio: when \<^verbatim>\<open>options\<close> is
  not supplied, no input element is rendered, without any error, and the wrapper holds
  only the label and the error text, each when present; when \<^verbatim>\<open>options\<close> is supplied
  but empty, the select is rendered with the placeholder option alone, and the radio
  group is rendered as an empty container.
\<close>

theorem select_radio_without_options:
  assumes "shouldRender p (watched c)"
      and "type_of p = ''select'' \<or> type_of p = ''radio''"
    shows "(options p = None \<longrightarrow>
              Field' st p c = Element ''div'' [''className'' \<mapsto> AStr ''mb-4''] None
                 [labelElement st p, Null, errorElement st (errors c (name p))]) \<and>
           (options p = Some [] \<longrightarrow> type_of p = ''select'' \<longrightarrow>
              field_input (Field' st p c) =
                Element ''select''
                  ([''id'' \<mapsto> AStr (name p)] ++ rest p
                     ++ [''className'' \<mapsto> ACn [Some (styles_select st),
                           errClass (errors c (name p) \<noteq> None), className p]])
                  (Some (name p, \<lparr>valueAsNumber = False\<rparr>))
                  [Element ''option''
                     [''value'' \<mapsto> AStr [], ''disabled'' \<mapsto> ABool True, ''hidden'' \<mapsto> ABool True]
                     None
                     [Text (case get_prop (rest p) ''placeholder'' of
                              AStr s \<Rightarrow> s | _ \<Rightarrow> ''Select an option'')]]) \<and>
           (options p = Some [] \<longrightarrow> type_of p = ''radio'' \<longrightarrow>
              field_input (Field' st p c) =
                Element ''div'' [''className'' \<mapsto> AStr ''flex flex-col gap-2''] None [])"
proof (intro conjI impI)
  assume none: "options p = None"
  have "inputElement st p (watched c) (errors c (name p) \<noteq> None) = Null"
    using assms(2) none
    by (auto simp: inputElement_select inputElement_radio case_select_def case_radio_def)
  then show "Field' st p c = Element ''div'' [''className'' \<mapsto> AStr ''mb-4''] None
                 [labelElement st p, Null, errorElement st (errors c (name p))]"
    by (simp add: Field_visible[OF assms(1)])
next
  assume "options p = Some []" and "type_of p = ''select''"
  then show "field_input (Field' st p c) =
                Element ''select''
                  ([''id'' \<mapsto> AStr (name p)] ++ rest p
                     ++ [''className'' \<mapsto> ACn [Some (styles_select st),
                           errClass (errors c (name p) \<noteq> None), className p]])
                  (Some (name p, \<lparr>valueAsNumber = False\<rparr>))
                  [Element ''option''
                     [''value'' \<mapsto> AStr [], ''disabled'' \<mapsto> ABool True, ''hidden'' \<mapsto> ABool True]
                     None
                     [Text (case get_prop (rest p) ''placeholder'' of
                              AStr s \<Rightarrow> s | _ \<Rightarrow> ''Select an option'')]]"
    by (simp add: field_input_Field[OF assms(1)] inputElement_select case_select_def register_def)
next
  assume "options p = Some []" and "type_of p = ''radio''"
  then show "field_input (Field' st p c) =
                Element ''div'' [''className'' \<mapsto> AStr ''flex flex-col gap-2''] None []"
    by (simp add: field_input_Field[OF assms(1)] inputElement_radio case_radio_def)
qed

text \<open>
  The select with an empty sequence, and a radio field with no \<^verbatim>\<open>options\<close> at all, whose
  wrapper is rendered with three empty slots.
\<close>

theorem select_radio_without_options_witness:
  "field_input (Field' demo_styles mood_field empty_ctx) =
     Element ''select''
       ([''id'' \<mapsto> AStr ''mood''] ++ Map.empty
          ++ [''className'' \<mapsto> ACn [Some ''select'', None, None]])
       (Some (''mood'', \<lparr>valueAsNumber = False\<rparr>))
       [Element ''option''
          [''value'' \<mapsto> AStr [], ''disabled'' \<mapsto> ABool True, ''hidden'' \<mapsto> ABool True] None
          [Text ''Select an option'']] \<and>
   Field' demo_styles plan_field empty_ctx =
     Element ''div'' [''className'' \<mapsto> AStr ''mb-4''] None [Null, Null, Null]"
proof -
  have v: "shouldRender mood_field (watched empty_ctx)"
    "shouldRender plan_field (watched empty_ctx)"
    by (simp_all add: shouldRender_def mood_field_def plan_field_def text_field_def)
  have t: "type_of mood_field = ''select'' \<or> type_of mood_field = ''radio''"
    "type_of plan_field = ''select'' \<or> type_of plan_field = ''radio''"
    by (simp_all add: type_of_def mood_field_def plan_field_def text_field_def)
  show ?thesis
    using select_radio_without_options[OF v(1) t(1), of demo_styles]
      select_radio_without_options[OF v(2) t(2), of demo_styles]
    by (simp add: mood_field_def plan_field_def text_field_def demo_styles_def empty_ctx_def
        type_of_def errClass_def get_prop_def labelElement_def errorElement_def)
qed

text \<open>
  Claim C4 as stated (a field whose type is none of the enumerated variants produces no
  markup at all) does not hold. The default arm sets only \<^verbatim>\<open>inputElement = null\<close>; the
  function goes on to return the wrapper, here with the label of the field.
\<close>

theorem unmatched_type_renders_wrapper:
  "type_of colour_field = ''color'' \<and>
   Field' demo_styles colour_field empty_ctx =
     Element ''div'' [''className'' \<mapsto> AStr ''mb-4''] None
       [Element ''label'' [''className'' \<mapsto> AStr ''label'', ''htmlFor'' \<mapsto> AStr ''colour''] None
          [Text ''Colour''], Null, Null] \<and>
   Field' demo_styles colour_field empty_ctx \<noteq> Null"
  by (simp add: Field'_def Let_def shouldRender_def type_of_def inputElement_def
      labelElement_def errorElement_def
      colour_field_def text_field_def demo_styles_def empty_ctx_def)

text \<open>
  Claim C4, amended. For a field whose type is none of the enumerated variants, no input
  element is rendered and no error is raised: the input slot is empty. A visible field
  still renders its wrapper, with the label and the error text, each when present; a
  hidden one renders nothing.
\<close>

theorem unmatched_type_no_input:
  assumes "type_of p \<notin> {''text'', ''number'', ''checkbox'', ''select'', ''textarea'', ''email'',
                        ''file'', ''date'', ''range'', ''radio'', ''password'', ''tel''}"
    shows "inputElement st p vs h = Null \<and>
           (shouldRender p (watched c) \<longrightarrow>
              Field' st p c = Element ''div'' [''className'' \<mapsto> AStr ''mb-4''] None
                 [labelElement st p, Null, errorElement st (errors c (name p))]) \<and>
           (\<not> shouldRender p (watched c) \<longrightarrow> Field' st p c = Null)"
  by (simp add: inputElement_unmatched[OF assms] Field_visible Field_hidden)

theorem unmatched_type_no_input_witness:
  "inputElement demo_styles colour_field Map.empty False = Null \<and>
   Field' demo_styles colour_field empty_ctx =
     Element ''div'' [''className'' \<mapsto> AStr ''mb-4''] None
       [labelElement demo_styles colour_field, Null, errorElement demo_styles None]"
proof -
  have "type_of colour_field \<notin> {''text'', ''number'', ''checkbox'', ''select'', ''textarea'',
          ''email'', ''file'', ''date'', ''range'', ''radio'', ''password'', ''tel''}"
    by (simp add: type_of_def colour_field_def text_field_def)
  from unmatched_type_no_input[OF this, of demo_styles Map.empty False empty_ctx]
  show ?thesis
    by (simp add: shouldRender_def colour_field_def text_field_def empty_ctx_def)
qed

section \<open>Error display\<close>

text \<open>
  Claim C7 as stated (for every field descriptor, an entry of the error map for the
  field's name puts error styling and the message into the rendered output) does not
  hold for a field behind a false \<^verbatim>\<open>showWhen\<close>: the function returns before the error
  lookup, so the entry is never read and nothing, no control and no text, is rendered.
\<close>

theorem hidden_field_shows_no_error:
  "errors unsubscribed_ctx (name frequency_field) = Some \<lparr>message = Some ''Pick a frequency''\<rparr> \<and>
   Field' demo_styles frequency_field unsubscribed_ctx = Null \<and>
   controls (Field' demo_styles frequency_field unsubscribed_ctx) = []"
  by (simp add: Field'_def Let_def shouldRender_def
      frequency_field_def text_field_def wantsNewsletter_def unsubscribed_ctx_def)

text \<open>
  Claim C7, amended. For every field that passes the visibility test: if the error map
  has an entry for the field's name, the wrapper ends with the error paragraph, styled
  with the error class of the style sheet and holding the entry's message, or the text
  ``This field is required'' when the entry has none, and every native control rendered
  for the field has the class \<^verbatim>\<open>border-red-500\<close> among the arguments of its class
  builder; if the error map has no entry for the field, the slot of the error text is
  empty.
\<close>

theorem visible_field_error_display:
  assumes "shouldRender p (watched c)"
    shows "(\<forall>e. errors c (name p) = Some e \<longrightarrow>
              Field' st p c =
                Element ''div'' [''className'' \<mapsto> AStr ''mb-4''] None
                  [labelElement st p, inputElement st p (watched c) True,
                   Element ''p'' [''className'' \<mapsto> AStr (styles_error st)] None
                     [Text (case message e of
                              Some m \<Rightarrow> m | None \<Rightarrow> ''This field is required'')]] \<and>
              (\<forall>x \<in> set (controls (Field' st p c)). has_error_class x)) \<and>
           (errors c (name p) = None \<longrightarrow>
              Field' st p c =
                Element ''div'' [''className'' \<mapsto> AStr ''mb-4''] None
                  [labelElement st p, inputElement st p (watched c) False, Null])"
proof (intro conjI allI impI)
  fix e
  assume e: "errors c (name p) = Some e"
  then show "Field' st p c =
                Element ''div'' [''className'' \<mapsto> AStr ''mb-4''] None
                  [labelElement st p, inputElement st p (watched c) True,
                   Element ''p'' [''className'' \<mapsto> AStr (styles_error st)] None
                     [Text (case message e of
                              Some m \<Rightarrow> m | None \<Rightarrow> ''This field is required'')]]"
    by (simp add: Field_visible[OF assms] errorElement_def)
  have "controls (Field' st p c) = controls (inputElement st p (watched c) True)"
    using e by (simp add: Field_visible[OF assms] controls_labelElement controls_errorElement)
  then show "\<forall>x \<in> set (controls (Field' st p c)). has_error_class x"
    using controls_inputElement_error[of st p "watched c"] by simp
next
  assume "errors c (name p) = None"
  then show "Field' st p c =
                Element ''div'' [''className'' \<mapsto> AStr ''mb-4''] None
                  [labelElement st p, inputElement st p (watched c) False, Null]"
    by (simp add: Field_visible[OF assms] errorElement_def)
qed

text \<open>
  The student's context has an entry without a message for the school field, which
  gets the fallback text and a styled input, and no entry for the age field.
\<close>

theorem visible_field_error_display_witness:
  "Field' demo_styles school_field student_ctx =
     Element ''div'' [''className'' \<mapsto> AStr ''mb-4''] None
       [labelElement demo_styles school_field,
        inputElement demo_styles school_field (watched student_ctx) True,
        Element ''p'' [''className'' \<mapsto> AStr ''error''] None [Text ''This field is required'']] \<and>
   list_all has_error_class (controls (Field' demo_styles school_field student_ctx)) \<and>
   controls (Field' demo_styles school_field student_ctx) \<noteq> [] \<and>
   Field' demo_styles age_field student_ctx =
     Element ''div'' [''className'' \<mapsto> AStr ''mb-4''] None
       [labelElement demo_styles age_field,
        inputElement demo_styles age_field (watched student_ctx) False, Null]"
proof -
  have v: "shouldRender school_field (watched student_ctx)"
    "shouldRender age_field (watched student_ctx)"
    by (simp_all add: shouldRender_def school_field_def age_field_def text_field_def
        isStudent_def student_ctx_def)
  have c: "controls (Field' demo_styles school_field student_ctx) \<noteq> []"
    unfolding Field_visible[OF v(1)]
    by (simp add: inputElement_def case_text_def type_of_def school_field_def text_field_def)
  show ?thesis
    using visible_field_error_display[OF v(1), of demo_styles]
      visible_field_error_display[OF v(2), of demo_styles] c
    by (simp add: school_field_def age_field_def text_field_def student_ctx_def
        demo_styles_def list_all_iff)
qed

section \<open>Numeric fields\<close>






section \<open>File fields\<close>

text \<open>
  Claim C6 as stated (for every file field, a change event with one selected file stores
  that file at the field's key) does not hold for a file field that is given an
  \<^verbatim>\<open>onChange\<close> of its own. The input lists \<^verbatim>\<open>{...rest}\<close> after the built-in
  \<^verbatim>\<open>onChange\<close>, so the caller's handler replaces it, and the built-in one, the only
  writer of this field, never runs: after the event the key is still absent.
\<close>

theorem file_change_replaced_by_rest:
  "type_of preview_field = ''file'' \<and>
   change_event (field_input (Field' demo_styles preview_field empty_ctx))
     (files_event [''a.png'']) Map.empty ''avatar'' = None"
  by (simp add: Field'_def Let_def shouldRender_def type_of_def inputElement_def case_file_def
      preview_field_def text_field_def showPreview_def files_event_def empty_ctx_def)

text \<open>
  Claim C6, amended. For every file field whose passthrough attributes hold no
  \<^verbatim>\<open>onChange\<close> of their own: without the \<^verbatim>\<open>multiple\<close> attribute, a change event with
  one selected file stores that file object at the field's key; with \<^verbatim>\<open>multiple\<close> set
  and two files selected, it stores the two-element sequence of those files, in their
  order, at that key. Both are written with the explicit setter of the state engine, and
  the rendered field holds no binding made by \<^verbatim>\<open>register\<close>.
\<close>

theorem file_change_stores_files:
  assumes "shouldRender p (watched c)"
      and "type_of p = ''file''"
      and "rest p ''onChange'' = None"
    shows "(\<not> truthy (get_prop (rest p) ''multiple'') \<longrightarrow> target_files e = Some [f] \<longrightarrow>
              change_event (field_input (Field' st p c)) e vs = setValue (name p) (JFile f) vs) \<and>
           (truthy (get_prop (rest p) ''multiple'') \<longrightarrow> target_files e = Some [f1, f2] \<longrightarrow>
              change_event (field_input (Field' st p c)) e vs
                = setValue (name p) (JArray [JFile f1, JFile f2]) vs) \<and>
           bindings (Field' st p c) = []"
proof -
  have "change_event (field_input (Field' st p c)) e vs = file_onChange p e vs"
    by (simp add: field_input_Field[OF assms(1)] inputElement_file[OF assms(2)]
        change_case_file[OF assms(3)])
  moreover have "bindings (Field' st p c) = []"
    by (simp add: Field_visible[OF assms(1)] inputElement_file[OF assms(2)]
        bindings_labelElement bindings_errorElement bindings_case_file)
  ultimately show ?thesis
    by (simp add: file_onChange_def)
qed

text \<open>One file into the single-file field, two files into the field with \<^verbatim>\<open>multiple\<close>.\<close>

theorem file_change_stores_files_witness:
  "change_event (field_input (Field' demo_styles avatar_field empty_ctx))
     (files_event [''a.png'']) Map.empty = [''avatar'' \<mapsto> JFile ''a.png''] \<and>
   change_event (field_input (Field' demo_styles photos_field empty_ctx))
     (files_event [''a.png'', ''b.png'']) Map.empty
     = [''photos'' \<mapsto> JArray [JFile ''a.png'', JFile ''b.png'']] \<and>
   bindings (Field' demo_styles avatar_field empty_ctx) = []"
proof -
  have v: "shouldRender avatar_field (watched empty_ctx)"
    "shouldRender photos_field (watched empty_ctx)"
    by (simp_all add: shouldRender_def avatar_field_def photos_field_def text_field_def)
  have t: "type_of avatar_field = ''file''" "type_of photos_field = ''file''"
    by (simp_all add: type_of_def avatar_field_def photos_field_def text_field_def)
  have r: "rest avatar_field ''onChange'' = None" "rest photos_field ''onChange'' = None"
    by (simp_all add: avatar_field_def photos_field_def text_field_def)
  show ?thesis
    using file_change_stores_files[OF v(1) t(1) r(1), where e = "files_event [''a.png'']"
        and f = "''a.png''" and st = demo_styles and vs = Map.empty]
      file_change_stores_files[OF v(2) t(2) r(2), where e = "files_event [''a.png'', ''b.png'']"
        and ?f1.0 = "''a.png''" and ?f2.0 = "''b.png''" and st = demo_styles and vs = Map.empty]
    by (simp add: avatar_field_def photos_field_def text_field_def files_event_def
        get_prop_def setValue_def)
qed

text \<open>
  Claim C10 as stated (for every file field without \<^verbatim>\<open>multiple\<close>, a change event with
  no file selected writes \<^verbatim>\<open>null\<close> at the field's key) does not hold for a file field
  that is given an \<^verbatim>\<open>onChange\<close> of its own, for the reason given under C6: the
  previous value stays.
\<close>

theorem file_clear_replaced_by_rest:
  "type_of preview_field = ''file'' \<and>
   \<not> truthy (get_prop (rest preview_field) ''multiple'') \<and>
   change_event (field_input (Field' demo_styles preview_field empty_ctx))
     (files_event []) [''avatar'' \<mapsto> JFile ''old.png''] ''avatar'' = Some (JFile ''old.png'')"
  by (simp add: Field'_def Let_def shouldRender_def type_of_def inputElement_def case_file_def
      get_prop_def preview_field_def text_field_def showPreview_def files_event_def empty_ctx_def)

text \<open>
  Claim C10, amended. For every file field without the \<^verbatim>\<open>multiple\<close> attribute whose
  passthrough attributes hold no \<^verbatim>\<open>onChange\<close> of their own, a change event in which no
  file is selected (an empty file list, or none) writes \<^verbatim>\<open>null\<close> at the field's key,
  whatever was there before.
\<close>

theorem file_change_no_file_writes_null:
  assumes "shouldRender p (watched c)"
      and "type_of p = ''file''"
      and "rest p ''onChange'' = None"
      and "\<not> truthy (get_prop (rest p) ''multiple'')"
      and "target_files e = None \<or> target_files e = Some []"
    shows "change_event (field_input (Field' st p c)) e vs = vs(name p \<mapsto> JNull)"
proof -
  have "change_event (field_input (Field' st p c)) e vs = file_onChange p e vs"
    by (simp add: field_input_Field[OF assms(1)] inputElement_file[OF assms(2)]
        change_case_file[OF assms(3)])
  also have "\<dots> = setValue (name p) JNull vs"
    using assms(4,5) by (auto simp: file_onChange_def)
  finally show ?thesis
    by (simp add: setValue_def)
qed

text \<open>The avatar field held a file; the event with an empty file list clears it.\<close>

theorem file_change_no_file_writes_null_witness:
  "change_event (field_input (Field' demo_styles avatar_field empty_ctx))
     (files_event []) [''avatar'' \<mapsto> JFile ''old.png''] ''avatar'' = Some JNull"
proof -
  have "shouldRender avatar_field (watched empty_ctx)"
    by (simp add: shouldRender_def avatar_field_def text_field_def)
  moreover have "type_of avatar_field = ''file''"
    by (simp add: type_of_def avatar_field_def text_field_def)
  moreover have "rest avatar_field ''onChange'' = None"
    by (simp add: avatar_field_def text_field_def)
  moreover have "\<not> truthy (get_prop (rest avatar_field) ''multiple'')"
    by (simp add: get_prop_def avatar_field_def text_field_def)
  moreover have "target_files (files_event []) = None \<or>
      target_files (files_event []) = Some ([] :: string list)"
    by (simp add: files_event_def)
  ultimately have
    "change_event (field_input (Field' demo_styles avatar_field empty_ctx))
       (files_event []) [''avatar'' \<mapsto> JFile ''old.png'']
     = [''avatar'' \<mapsto> JFile ''old.png''](name avatar_field \<mapsto> JNull)"
    by (rule file_change_no_file_writes_null)
  then show ?thesis
    by (simp add: avatar_field_def text_field_def)
qed

section \<open>Submission\<close>

text \<open>
  Claim C2. A submit event on the form validates the current values. When the schema
  rejects them the caller's state is returned as it was: \<^verbatim>\<open>onSubmit\<close> is not applied.
  When the schema accepts, the result is one application of \<^verbatim>\<open>onSubmit\<close> to the parsed
  values; with no \<^verbatim>\<open>onSubmit\<close> given, the empty callback stands in and the state is
  unchanged. The callback \<open>f\<close> is arbitrary, so the right-hand side fixes the number of
  its applications.
\<close>

theorem Form_submit_invokes_onSubmit:
  "submit_event (Form props children cls) vs w =
     (case schema props vs of
        Inl errs \<Rightarrow> w
      | Inr parsed \<Rightarrow> (case onSubmit props of Some f \<Rightarrow> f parsed w | None \<Rightarrow> w))"
  by (simp add: submit_event_def Form_def handleSubmit_def split: sum.splits option.splits)

text \<open>
  With the logging callback: the accepted submission leaves one call in the log, made
  with the coerced age; the rejected one leaves the log empty.
\<close>

theorem Form_submit_invokes_onSubmit_witness:
  "submit_event (Form age_form [] None) [''age'' \<mapsto> JStr ''42''] [] = [Some (JNum 42)] \<and>
   submit_event (Form age_form [] None) Map.empty [] = []"
  using Form_submit_invokes_onSubmit[of age_form "[]" None "[''age'' \<mapsto> JStr ''42'']" "[]"]
    Form_submit_invokes_onSubmit[of age_form "[]" None Map.empty "[]"]
  by (simp add: age_form_def age_schema_def log_age_def decimal_def)

end
